theory Spec2Isabelle
  imports Main
begin

section \<open>Python values and exceptions\<close>

text \<open>
  The tools of \<^verbatim>\<open>AIAssistedCustomerHelpDesk.py\<close> and \<^verbatim>\<open>WebRTCDemooAgent.py\<close> are
  coroutines that build one HTTP request, hand it to the \<^verbatim>\<open>requests\<close> library and turn
  the reply into a sentence. Strings are byte lists (UTF-8); no function below depends on
  where a code point ends, since every character the code looks for is ASCII.

  A decoded JSON document, as \<^verbatim>\<open>response.json()\<close> returns it. An object holds the items
  of the Python dict in order (its keys are distinct, the decoder keeps one entry per key).
  A float keeps its literal: no function below computes with it.
\<close>

datatype json =
    JNull
  | JBool bool
  | JInt int
  | JFloat string
  | JStr string
  | JArr "json list"
  | JObj "(string \<times> json) list"

text \<open>
  The exceptions that can occur. The first three are subclasses of
  \<^verbatim>\<open>requests.RequestException\<close> (for \<^verbatim>\<open>JSONDecodeError\<close>: as of requests 2.27). The
  next three are Python's built-in ones, raised when a body of an unexpected shape is
  taken apart. The last two are errors of other classes that the \<^verbatim>\<open>requests\<close> library
  lets through from a call of \<^verbatim>\<open>requests.get\<close> or \<^verbatim>\<open>requests.post\<close>.
\<close>

datatype exn =
    ConnectionError
  | HTTPError
  | JSONDecodeError
  | KeyError
  | TypeError
  | AttributeError
  | UnicodeEncodeError
  | LocationParseError

fun is_RequestException :: "exn \<Rightarrow> bool" where
  "is_RequestException ConnectionError = True"
| "is_RequestException HTTPError = True"
| "is_RequestException JSONDecodeError = True"
| "is_RequestException _ = False"

text \<open>Sequencing of statements that may raise: the first exception ends the block.\<close>

definition and_then :: "exn + 'a \<Rightarrow> ('a \<Rightarrow> exn + 'b) \<Rightarrow> exn + 'b" where
  "and_then m f = (case m of Inl e \<Rightarrow> Inl e | Inr x \<Rightarrow> f x)"

text \<open>
  \<^verbatim>\<open>try: ... except requests.RequestException as e: print(...); return msg\<close>.
  Only a \<^verbatim>\<open>RequestException\<close> is caught; any other exception leaves the coroutine.
  Output to stdout is not part of the model.
\<close>

definition except_RequestException :: "exn + string \<Rightarrow> string \<Rightarrow> exn + string" where
  "except_RequestException block msg =
     (case block of
        Inr v \<Rightarrow> Inr v
      | Inl e \<Rightarrow> if is_RequestException e then Inr msg else Inl e)"

text \<open>\<^verbatim>\<open>v[key]\<close> with a string key: only a dict can be subscripted by a string.\<close>

fun getitem :: "json \<Rightarrow> string \<Rightarrow> exn + json" where
  "getitem (JObj kvs) k = (case map_of kvs k of None \<Rightarrow> Inl KeyError | Some v \<Rightarrow> Inr v)"
| "getitem _ k = Inl TypeError"

text \<open>\<^verbatim>\<open>v.get(key, default)\<close>: a method of dict only.\<close>

fun dict_get :: "json \<Rightarrow> string \<Rightarrow> json \<Rightarrow> exn + json" where
  "dict_get (JObj kvs) k d = (case map_of kvs k of None \<Rightarrow> Inr d | Some v \<Rightarrow> Inr v)"
| "dict_get _ k d = Inl AttributeError"

text \<open>
  \<^verbatim>\<open>for x in v\<close>: the elements of a list, the keys of a dict, the characters of a string;
  anything else is not iterable.
\<close>

fun py_iter :: "json \<Rightarrow> exn + json list" where
  "py_iter (JArr xs) = Inr xs"
| "py_iter (JObj kvs) = Inr (map (\<lambda>kv. JStr (fst kv)) kvs)"
| "py_iter (JStr s) = Inr (map (\<lambda>c. JStr [c]) s)"
| "py_iter _ = Inl TypeError"

fun starts_with :: "string \<Rightarrow> string \<Rightarrow> bool" where
  "starts_with s [] = True"
| "starts_with [] (p # ps) = False"
| "starts_with (c # cs) (p # ps) = (c = p \<and> starts_with cs ps)"

fun substring_of :: "string \<Rightarrow> string \<Rightarrow> bool" where
  "substring_of p [] = (p = [])"
| "substring_of p (c # cs) = (starts_with (c # cs) p \<or> substring_of p cs)"

text \<open>
  \<^verbatim>\<open>s in v\<close> for a string \<^verbatim>\<open>s\<close>: an equal element of a list, a key of a dict, a
  substring of a string; anything else raises.
\<close>

fun py_contains :: "string \<Rightarrow> json \<Rightarrow> exn + bool" where
  "py_contains s (JArr xs) = Inr (JStr s \<in> set xs)"
| "py_contains s (JObj kvs) = Inr (s \<in> fst ` set kvs)"
| "py_contains s (JStr t) = Inr (substring_of s t)"
| "py_contains s _ = Inl TypeError"

text \<open>Decimal digits of a natural number, for \<^verbatim>\<open>str\<close> of an int.\<close>

fun digits :: "nat \<Rightarrow> string" where
  "digits n =
     (if n < 10 then [char_of (48 + n)]
      else digits (n div 10) @ [char_of (48 + n mod 10)])"

text \<open>
  \<^verbatim>\<open>f"{v}"\<close>: a string is inserted as it is. The text Python gives a float, a list or a
  dict is the interpreter's \<^verbatim>\<open>repr\<close>, taken as the parameter \<open>repr\<close>.
\<close>

fun py_format :: "(json \<Rightarrow> string) \<Rightarrow> json \<Rightarrow> string" where
  "py_format repr (JStr s) = s"
| "py_format repr JNull = ''None''"
| "py_format repr (JBool b) = (if b then ''True'' else ''False'')"
| "py_format repr (JInt i) = (if i < 0 then CHR ''-'' # digits (nat (- i)) else digits (nat i))"
| "py_format repr v = repr v"

text \<open>\<^verbatim>\<open>f"{os.getenv(name)}"\<close>: an unset variable is formatted as the text \<^verbatim>\<open>None\<close>.\<close>

fun format_optional :: "string option \<Rightarrow> string" where
  "format_optional None = ''None''"
| "format_optional (Some s) = s"

section \<open>The HTTP boundary\<close>

datatype http_method = GET | POST

text \<open>
  What a call of \<^verbatim>\<open>requests.get\<close> or \<^verbatim>\<open>requests.post\<close> sends. \<open>timeout\<close> is the
  keyword of that name, in seconds; \<open>None\<close> is the library's default and means that the
  call waits for the server without limit.
\<close>

record request =
  meth :: http_method
  url :: string
  headers :: "(string \<times> string) list"
  json_body :: "json option"
  timeout :: "nat option"

text \<open>
  How a call of the library ends: with no response and a \<^verbatim>\<open>RequestException\<close> (no
  connection, a URL the library refuses, a redirect loop), with no response and the
  given exception, which may be of any class, or with a response that has a status code
  and a body; the body is \<open>None\<close> when it does not decode as JSON.
\<close>

datatype http_outcome = Failed | Raised exn | Response int "json option"

type_synonym network = "request \<Rightarrow> http_outcome"

type_synonym response = "int \<times> json option"

text \<open>The process environment, read by \<^verbatim>\<open>os.getenv\<close>.\<close>

type_synonym environ = "string \<Rightarrow> string option"

definition send :: "network \<Rightarrow> request \<Rightarrow> (exn + response) \<times> request list" where
  "send net r =
     (case net r of
        Failed \<Rightarrow> (Inl ConnectionError, [r])
      | Raised e \<Rightarrow> (Inl e, [r])
      | Response s b \<Rightarrow> (Inr (s, b), [r]))"

definition requests_post ::
  "network \<Rightarrow> string \<Rightarrow> json \<Rightarrow> (string \<times> string) list \<Rightarrow> nat option
     \<Rightarrow> (exn + response) \<times> request list" where
  "requests_post net u d h t =
     send net \<lparr>meth = POST, url = u, headers = h, json_body = Some d, timeout = t\<rparr>"

definition requests_get ::
  "network \<Rightarrow> string \<Rightarrow> (string \<times> string) list \<Rightarrow> nat option
     \<Rightarrow> (exn + response) \<times> request list" where
  "requests_get net u h t =
     send net \<lparr>meth = GET, url = u, headers = h, json_body = None, timeout = t\<rparr>"

text \<open>\<^verbatim>\<open>response.raise_for_status()\<close>: an \<^verbatim>\<open>HTTPError\<close> for a 4xx or 5xx status.\<close>

definition raise_for_status :: "response \<Rightarrow> exn + unit" where
  "raise_for_status r = (if 400 \<le> fst r \<and> fst r < 600 then Inl HTTPError else Inr ())"

definition response_json :: "response \<Rightarrow> exn + json" where
  "response_json r = (case snd r of None \<Rightarrow> Inl JSONDecodeError | Some j \<Rightarrow> Inr j)"

section \<open>The tools of the interview assistant\<close>

text \<open>
  Each tool returns what the coroutine returns or raises, and the list of HTTP requests it
  has handed to the library. No call passes a \<^verbatim>\<open>timeout\<close> keyword, hence the \<open>None\<close>.
\<close>

definition save_candidate_details ::
  "(json \<Rightarrow> string) \<Rightarrow> environ \<Rightarrow> network \<Rightarrow> string \<Rightarrow> string
     \<Rightarrow> (exn + string) \<times> request list" where
  "save_candidate_details repr env net email name =
     (let api_token = env ''API_TOKEN'';
          api_url = format_optional (env ''CRM_CANDIDATE_ENDPOINT'');
          hdrs = [(''Authorization'', ''Bearer '' @ format_optional api_token),
                  (''Content-Type'', ''application/json'')];
          data = JObj [(''email'', JStr email), (''name'', JStr name),
                       (''tags'', JArr [JStr ''new_candidate''])];
          (resp, io) = requests_post net api_url data hdrs None
      in (except_RequestException
            (and_then resp (\<lambda>r.
             and_then (raise_for_status r) (\<lambda>_.
             and_then (response_json r) (\<lambda>j.
             and_then (getitem j ''candidate'') (\<lambda>c.
             and_then (getitem c ''id'') (\<lambda>candidate_id.
             Inr (''Candidate details saved with ID: '' @ py_format repr candidate_id @ ''.'')))))))
            ''Failed to save candidate details. Please try again.'',
          io))"

definition ask_hr_questions :: "string \<Rightarrow> string \<Rightarrow> string \<Rightarrow> (exn + string) \<times> request list" where
  "ask_hr_questions experience skills previous_companies =
     (Inr ''HR questions answered successfully.'', [])"

definition schedule_interview ::
  "environ \<Rightarrow> network \<Rightarrow> string \<Rightarrow> string \<Rightarrow> (exn + string) \<times> request list" where
  "schedule_interview env net email slot =
     (let api_token = env ''API_TOKEN'';
          api_url = format_optional (env ''INTERVIEW_SLOTS_ENDPOINT'');
          hdrs = [(''Authorization'', ''Bearer '' @ format_optional api_token),
                  (''Content-Type'', ''application/json'')];
          data = JObj [(''email'', JStr email), (''slot'', JStr slot)];
          (resp, io) = requests_post net api_url data hdrs None
      in (except_RequestException
            (and_then resp (\<lambda>r.
             and_then (raise_for_status r) (\<lambda>_.
             Inr (''Interview scheduled successfully for '' @ slot @ ''.''))))
            ''Failed to schedule the interview. Please try again.'',
          io))"

section \<open>The email pattern\<close>

text \<open>
  The pattern of \<^verbatim>\<open>book_appointment\<close> is \<^verbatim>\<open>[^@]+@[^@]+\.[^@]+\<close>: a sequence of items,
  each a single character or a one-character negated class, taken once or once and more.
  \<open>re_rests p s\<close> lists what is left of \<open>s\<close> after every way of matching \<open>p\<close> at its
  start; \<^verbatim>\<open>re.match\<close> anchors the pattern at the start of the string only and finds a
  match when there is one, so its result is truthy exactly when that list is not empty.
\<close>

datatype atom = Lit char | NotLit char

datatype item = One atom | Plus atom

fun atom_ok :: "atom \<Rightarrow> char \<Rightarrow> bool" where
  "atom_ok (Lit a) c = (c = a)"
| "atom_ok (NotLit a) c = (c \<noteq> a)"

fun plus_rests :: "atom \<Rightarrow> string \<Rightarrow> string list" where
  "plus_rests a [] = []"
| "plus_rests a (c # cs) = (if atom_ok a c then cs # plus_rests a cs else [])"

fun item_rests :: "item \<Rightarrow> string \<Rightarrow> string list" where
  "item_rests (One a) [] = []"
| "item_rests (One a) (c # cs) = (if atom_ok a c then [cs] else [])"
| "item_rests (Plus a) s = plus_rests a s"

fun re_rests :: "item list \<Rightarrow> string \<Rightarrow> string list" where
  "re_rests [] s = [s]"
| "re_rests (i # p) s = concat (map (re_rests p) (item_rests i s))"

definition re_match :: "item list \<Rightarrow> string \<Rightarrow> bool" where
  "re_match p s = (re_rests p s \<noteq> [])"

definition email_pattern :: "item list" where
  "email_pattern =
     [Plus (NotLit CHR ''@''), One (Lit CHR ''@''), Plus (NotLit CHR ''@''),
      One (Lit CHR ''.''), Plus (NotLit CHR ''@'')]"

text \<open>
  The format in the specification's words, regex-equivalent: the whole string is a local
  part, an at sign, a domain, a dot and a top-level part, each of the three parts one or
  more characters other than the at sign.
\<close>

definition email_format :: "string \<Rightarrow> bool" where
  "email_format s =
     (\<exists>local domain tld.
        local \<noteq> [] \<and> CHR ''@'' \<notin> set local \<and>
        domain \<noteq> [] \<and> CHR ''@'' \<notin> set domain \<and>
        tld \<noteq> [] \<and> CHR ''@'' \<notin> set tld \<and>
        s = local @ ''@'' @ domain @ ''.'' @ tld)"

section \<open>The tools of the booking assistant\<close>

definition book_appointment ::
  "environ \<Rightarrow> network \<Rightarrow> string \<Rightarrow> string \<Rightarrow> (exn + string) \<times> request list" where
  "book_appointment env net email name =
     (if \<not> re_match email_pattern email
      then (Inr ''The email address seems incorrect. Please provide a valid one.'', [])
      else
        let webhook_url = format_optional (env ''WEBHOOK_URL'');
            hdrs = [(''Content-Type'', ''application/json'')];
            data = JObj [(''email'', JStr email), (''name'', JStr name)];
            (resp, io) = requests_post net webhook_url data hdrs None
        in (except_RequestException
              (and_then resp (\<lambda>r.
               and_then (raise_for_status r) (\<lambda>_.
               Inr (''Appointment booking link sent to '' @ email @ ''. Please check your email.''))))
              ''There was an error booking your appointment. Please try again later.'',
            io))"

text \<open>The loop over the contacts: it returns at the first contact that carries the tag.\<close>

fun scan_contacts :: "json list \<Rightarrow> exn + string" where
  "scan_contacts [] = Inr ''The user has not yet booked an appointment. Please offer him help''"
| "scan_contacts (contact # rest) =
     (case dict_get contact ''tags'' (JArr []) of
        Inl e \<Rightarrow> Inl e
      | Inr tags \<Rightarrow>
          (case py_contains ''livekit_appointment_booked'' tags of
             Inl e \<Rightarrow> Inl e
           | Inr found \<Rightarrow>
               if found then Inr ''The user has successfully booked the appointment.''
               else scan_contacts rest))"

definition check_appointment_status ::
  "environ \<Rightarrow> network \<Rightarrow> string \<Rightarrow> (exn + string) \<times> request list" where
  "check_appointment_status env net email =
     (let api_token = env ''API_TOKEN'';
          api_url = format_optional (env ''CRM_CONTACT_LOOKUP_ENDPOINT'') @ ''?email='' @ email;
          hdrs = [(''Authorization'', ''Bearer '' @ format_optional api_token),
                  (''Content-Type'', ''application/json'')];
          (resp, io) = requests_get net api_url hdrs None
      in (except_RequestException
            (and_then resp (\<lambda>r.
             and_then (raise_for_status r) (\<lambda>_.
             and_then (response_json r) (\<lambda>data.
             and_then (dict_get data ''contacts'' (JArr [])) (\<lambda>contacts.
             and_then (py_iter contacts) scan_contacts)))))
            ''Error checking the appointment status.'',
          io))"

section \<open>The session of the booking assistant\<close>

text \<open>The coroutines that the two function contexts register with \<^verbatim>\<open>ai_callable\<close>.\<close>

datatype tool =
    SaveCandidateDetails
  | AskHrQuestions
  | ScheduleInterview
  | BookAppointment

text \<open>
  What the handler of \<^verbatim>\<open>function_calls_finished\<close> receives: for each finished call the
  tool, its arguments (the items of a dict with string values) and what the coroutine
  returned or raised.
\<close>

record function_call_info =
  function_info :: tool
  arguments :: "(string \<times> string) list"

record called_function =
  call_info :: function_call_info
  result :: "exn + string"

text \<open>A coroutine handed to \<^verbatim>\<open>asyncio.create_task\<close>.\<close>

datatype task = Answer string | FollowUpAppointment string

text \<open>\<^verbatim>\<open>if v:\<close> for the result of \<^verbatim>\<open>arguments.get(key)\<close>: a missing or empty value is falsy.\<close>

fun truthy :: "string option \<Rightarrow> bool" where
  "truthy None = False"
| "truthy (Some s) = (s \<noteq> [])"

text \<open>
  The handler looks at the first call only, and only at its arguments. With a
  \<^verbatim>\<open>user_msg\<close> it calls \<^verbatim>\<open>_answer(user_msg, use_image=True)\<close>, which raises since
  \<^verbatim>\<open>_answer\<close> has the single parameter \<^verbatim>\<open>text\<close>. The result is the list of tasks created.
\<close>

definition on_function_calls_finished :: "called_function list \<Rightarrow> exn + task list" where
  "on_function_calls_finished called_functions =
     (case called_functions of
        [] \<Rightarrow> Inr []
      | first # _ \<Rightarrow>
          let user_msg = map_of (arguments (call_info first)) ''user_msg'' in
          if truthy user_msg then Inl TypeError
          else
            let email = map_of (arguments (call_info first)) ''email'' in
            if truthy email then Inr [FollowUpAppointment (the email)] else Inr [])"

text \<open>
  \<^verbatim>\<open>follow_up_appointment\<close> once its \<^verbatim>\<open>asyncio.sleep(20)\<close> is over: the status check,
  then \<^verbatim>\<open>_answer(status)\<close>. It reads neither the connection state nor any flag.
\<close>

definition follow_up_appointment ::
  "environ \<Rightarrow> network \<Rightarrow> string \<Rightarrow> (exn + task) \<times> request list" where
  "follow_up_appointment env net email =
     (let (status, io) = check_appointment_status env net email
      in (and_then status (\<lambda>s. Inr (Answer s)), io))"

text \<open>
  The state of one session: whether the room is connected, whether \<^verbatim>\<open>entrypoint\<close> is
  still in its polling loop, the follow-up tasks that are asleep (by email), the texts
  \<^verbatim>\<open>_answer\<close> has been called with and the HTTP requests issued so far.
\<close>

record session =
  connected :: bool
  polling :: bool
  asleep :: "string list"
  answered :: "string list"
  sent :: "request list"

text \<open>
  \<^verbatim>\<open>_answer(text)\<close> appends the text to the chat context as a user message and speaks the
  language model's reply; the session records the text.
\<close>

definition answer :: "string \<Rightarrow> session \<Rightarrow> session" where
  "answer text s = s\<lparr>answered := answered s @ [text]\<rparr>"

text \<open>The session when \<^verbatim>\<open>entrypoint\<close> enters its polling loop.\<close>

definition initial_session :: session where
  "initial_session =
     \<lparr>connected = True, polling = True, asleep = [], answered = [], sent = []\<rparr>"

text \<open>The emails of the follow-up tasks among the tasks created.\<close>

fun follow_ups :: "task list \<Rightarrow> string list" where
  "follow_ups [] = []"
| "follow_ups (FollowUpAppointment e # ts) = e # follow_ups ts"
| "follow_ups (Answer x # ts) = follow_ups ts"

text \<open>
  A follow-up that wakes up: it leaves the sleeping tasks, issues its lookup and, unless
  the lookup raised, answers with the status.
\<close>

definition wake :: "environ \<Rightarrow> network \<Rightarrow> string \<Rightarrow> session \<Rightarrow> session" where
  "wake env net email s =
     (let (r, io) = follow_up_appointment env net email;
          s' = s\<lparr>asleep := remove1 email (asleep s), sent := sent s @ io\<rparr>
      in case r of Inr (Answer text) \<Rightarrow> answer text s' | _ \<Rightarrow> s')"

text \<open>
  The events of a session, each as the code handles it. Time is abstracted: a sleeping
  follow-up wakes at some later step. The room changes its connection state on its own;
  \<^verbatim>\<open>entrypoint\<close> notices at its next poll, up to a second later, and returns; it does
  nothing else on the way out. A chat message that is not empty is answered. The tasks
  belong to the event loop, not to \<^verbatim>\<open>entrypoint\<close>: the relation lets them run for as
  long as the loop does, which the code of the repository does not decide.
\<close>

inductive step :: "environ \<Rightarrow> network \<Rightarrow> session \<Rightarrow> session \<Rightarrow> bool"
  for env :: environ and net :: network where
  disconnect: "connected s \<Longrightarrow> step env net s (s\<lparr>connected := False\<rparr>)"
| poll: "polling s \<Longrightarrow> step env net s (s\<lparr>polling := connected s\<rparr>)"
| calls_finished:
    "on_function_calls_finished cfs = Inr ts \<Longrightarrow>
       step env net s (s\<lparr>asleep := asleep s @ follow_ups ts\<rparr>)"
| message_received: "msg \<noteq> [] \<Longrightarrow> step env net s (answer msg s)"
| follow_up_wakes:
    "email \<in> set (asleep s) \<Longrightarrow> step env net s (wake env net email s)"

section \<open>Stub collaborators and the specification's vocabulary\<close>

text \<open>
  The scenarios of the specification run a tool against a stub endpoint that gives one
  fixed answer, with a fixed environment.
\<close>

definition stub_network :: "http_outcome \<Rightarrow> network" where
  "stub_network out r = out"

definition stub_environ :: environ where
  "stub_environ =
     map_of [(''API_TOKEN'', ''secret''),
             (''CRM_CANDIDATE_ENDPOINT'', ''https://crm.test/candidates''),
             (''INTERVIEW_SLOTS_ENDPOINT'', ''https://crm.test/slots''),
             (''WEBHOOK_URL'', ''https://hooks.test/book''),
             (''CRM_CONTACT_LOOKUP_ENDPOINT'', ''https://crm.test/contacts'')]"

definition stub_repr :: "json \<Rightarrow> string" where
  "stub_repr v = ''...''"

text \<open>
  The tag list of a contact record, in the specification's words: a JSON object whose
  \<^verbatim>\<open>tags\<close>, when present, is a list; a record without the field has no tags. A
  contact is booked when the marker tag is among its tags.
\<close>

fun contact_tags :: "json \<Rightarrow> json list option" where
  "contact_tags (JObj kvs) =
     (case map_of kvs ''tags'' of
        None \<Rightarrow> Some []
      | Some (JArr ts) \<Rightarrow> Some ts
      | Some _ \<Rightarrow> None)"
| "contact_tags _ = None"

definition booked_contact :: "json \<Rightarrow> bool" where
  "booked_contact c =
     (case contact_tags c of
        None \<Rightarrow> False
      | Some ts \<Rightarrow> JStr ''livekit_appointment_booked'' \<in> set ts)"

section \<open>Properties\<close>

subsection \<open>What the email pattern accepts\<close>

lemma plus_rests_iff:
  "t \<in> set (plus_rests a s) \<longleftrightarrow> (\<exists>p. p \<noteq> [] \<and> (\<forall>c\<in>set p. atom_ok a c) \<and> s = p @ t)"
proof (induction s)
  case Nil
  then show ?case by simp
next
  case (Cons x xs)
  show ?case
  proof (cases "atom_ok a x")
    case False
    have "\<not> (\<exists>p. p \<noteq> [] \<and> (\<forall>c\<in>set p. atom_ok a c) \<and> x # xs = p @ t)"
    proof
      assume "\<exists>p. p \<noteq> [] \<and> (\<forall>c\<in>set p. atom_ok a c) \<and> x # xs = p @ t"
      then obtain p where p: "p \<noteq> []" "\<forall>c\<in>set p. atom_ok a c" "x # xs = p @ t" by blast
      then obtain q where "p = x # q" by (cases p) auto
      with p(2) False show False by simp
    qed
    with False show ?thesis by simp
  next
    case True
    show ?thesis
    proof
      assume "t \<in> set (plus_rests a (x # xs))"
      with True have "t = xs \<or> t \<in> set (plus_rests a xs)" by simp
      then show "\<exists>p. p \<noteq> [] \<and> (\<forall>c\<in>set p. atom_ok a c) \<and> x # xs = p @ t"
      proof
        assume "t = xs"
        with True have "[x] \<noteq> [] \<and> (\<forall>c\<in>set [x]. atom_ok a c) \<and> x # xs = [x] @ t" by simp
        then show ?thesis by blast
      next
        assume "t \<in> set (plus_rests a xs)"
        with Cons.IH obtain p where "p \<noteq> []" "\<forall>c\<in>set p. atom_ok a c" "xs = p @ t" by blast
        with True have "x # p \<noteq> [] \<and> (\<forall>c\<in>set (x # p). atom_ok a c) \<and> x # xs = (x # p) @ t"
          by simp
        then show ?thesis by blast
      qed
    next
      assume "\<exists>p. p \<noteq> [] \<and> (\<forall>c\<in>set p. atom_ok a c) \<and> x # xs = p @ t"
      then obtain p where p: "p \<noteq> []" "\<forall>c\<in>set p. atom_ok a c" "x # xs = p @ t" by blast
      then obtain q where q: "p = x # q" by (cases p) auto
      show "t \<in> set (plus_rests a (x # xs))"
      proof (cases q)
        case Nil
        with p q True show ?thesis by simp
      next
        case (Cons y ys)
        with p q have "q \<noteq> [] \<and> (\<forall>c\<in>set q. atom_ok a c) \<and> xs = q @ t" by simp
        with Cons.IH have "t \<in> set (plus_rests a xs)" by blast
        with True show ?thesis by simp
      qed
    qed
  qed
qed

lemma one_rests_iff:
  "t \<in> set (item_rests (One a) s) \<longleftrightarrow> (\<exists>c. atom_ok a c \<and> s = c # t)"
  by (cases s) auto

lemma re_rests_Cons:
  "t \<in> set (re_rests (i # p) s) \<longleftrightarrow> (\<exists>u. u \<in> set (item_rests i s) \<and> t \<in> set (re_rests p u))"
  by auto

lemma re_rests_Nil: "t \<in> set (re_rests [] s) \<longleftrightarrow> t = s"
  by auto

lemma re_rests_email:
  "r \<in> set (re_rests email_pattern s) \<longleftrightarrow>
     (\<exists>s1 s2 s3 s4.
        s1 \<in> set (plus_rests (NotLit CHR ''@'') s) \<and>
        s2 \<in> set (item_rests (One (Lit CHR ''@'')) s1) \<and>
        s3 \<in> set (plus_rests (NotLit CHR ''@'') s2) \<and>
        s4 \<in> set (item_rests (One (Lit CHR ''.'')) s3) \<and>
        r \<in> set (plus_rests (NotLit CHR ''@'') s4))"
  unfolding email_pattern_def re_rests_Cons re_rests_Nil item_rests.simps(3)
  by blast

text \<open>
  What the pattern leaves of a string: the string is three non-empty parts free of at
  signs, separated by an at sign and a dot, followed by the rest.
\<close>

lemma re_rests_email_iff:
  "r \<in> set (re_rests email_pattern s) \<longleftrightarrow>
     (\<exists>l d t. l \<noteq> [] \<and> CHR ''@'' \<notin> set l \<and> d \<noteq> [] \<and> CHR ''@'' \<notin> set d
        \<and> t \<noteq> [] \<and> CHR ''@'' \<notin> set t \<and> s = l @ ''@'' @ d @ ''.'' @ t @ r)"
  (is "?L \<longleftrightarrow> ?R")
proof
  assume ?L
  then obtain s1 s2 s3 s4 where
    a: "s1 \<in> set (plus_rests (NotLit CHR ''@'') s)"
    and b: "s2 \<in> set (item_rests (One (Lit CHR ''@'')) s1)"
    and c: "s3 \<in> set (plus_rests (NotLit CHR ''@'') s2)"
    and d: "s4 \<in> set (item_rests (One (Lit CHR ''.'')) s3)"
    and e: "r \<in> set (plus_rests (NotLit CHR ''@'') s4)"
    unfolding re_rests_email by blast
  from a obtain l where l: "l \<noteq> []" "\<forall>c\<in>set l. atom_ok (NotLit CHR ''@'') c" "s = l @ s1"
    unfolding plus_rests_iff by blast
  from b have s1: "s1 = CHR ''@'' # s2"
    unfolding one_rests_iff by simp
  from c obtain dm where dm: "dm \<noteq> []" "\<forall>c\<in>set dm. atom_ok (NotLit CHR ''@'') c" "s2 = dm @ s3"
    unfolding plus_rests_iff by blast
  from d have s3: "s3 = CHR ''.'' # s4"
    unfolding one_rests_iff by simp
  from e obtain t where t: "t \<noteq> []" "\<forall>c\<in>set t. atom_ok (NotLit CHR ''@'') c" "s4 = t @ r"
    unfolding plus_rests_iff by blast
  have "CHR ''@'' \<notin> set l" "CHR ''@'' \<notin> set dm" "CHR ''@'' \<notin> set t"
    using l(2) dm(2) t(2) by auto
  moreover have "s = l @ ''@'' @ dm @ ''.'' @ t @ r"
    using l(3) s1 dm(3) s3 t(3) by simp
  ultimately have "l \<noteq> [] \<and> CHR ''@'' \<notin> set l \<and> dm \<noteq> [] \<and> CHR ''@'' \<notin> set dm
        \<and> t \<noteq> [] \<and> CHR ''@'' \<notin> set t \<and> s = l @ ''@'' @ dm @ ''.'' @ t @ r"
    using l(1) dm(1) t(1) by simp
  then show ?R by blast
next
  assume ?R
  then obtain l d t where h: "l \<noteq> []" "CHR ''@'' \<notin> set l" "d \<noteq> []" "CHR ''@'' \<notin> set d"
    "t \<noteq> []" "CHR ''@'' \<notin> set t" "s = l @ ''@'' @ d @ ''.'' @ t @ r" by blast
  have 1: "''@'' @ d @ ''.'' @ t @ r \<in> set (plus_rests (NotLit CHR ''@'') s)"
    unfolding plus_rests_iff using h by (intro exI[of _ l]) auto
  have 2: "d @ ''.'' @ t @ r \<in> set (item_rests (One (Lit CHR ''@'')) (''@'' @ d @ ''.'' @ t @ r))"
    by simp
  have 3: "''.'' @ t @ r \<in> set (plus_rests (NotLit CHR ''@'') (d @ ''.'' @ t @ r))"
    unfolding plus_rests_iff using h by (intro exI[of _ d]) auto
  have 4: "t @ r \<in> set (item_rests (One (Lit CHR ''.'')) (''.'' @ t @ r))"
    by simp
  have 5: "r \<in> set (plus_rests (NotLit CHR ''@'') (t @ r))"
    unfolding plus_rests_iff using h by (intro exI[of _ t]) auto
  show ?L
    unfolding re_rests_email using 1 2 3 4 5 by blast
qed

text \<open>
  The strings that pass the check of \<^verbatim>\<open>book_appointment\<close> are exactly those that start
  with a string of the format; what follows it is not looked at.
\<close>

lemma re_match_email_iff:
  "re_match email_pattern s \<longleftrightarrow> (\<exists>p r. email_format p \<and> s = p @ r)"
proof
  assume "re_match email_pattern s"
  then obtain r where "r \<in> set (re_rests email_pattern s)"
    unfolding re_match_def by (cases "re_rests email_pattern s") auto
  then obtain l d t where "l \<noteq> []" "CHR ''@'' \<notin> set l" "d \<noteq> []" "CHR ''@'' \<notin> set d"
    "t \<noteq> []" "CHR ''@'' \<notin> set t" "s = l @ ''@'' @ d @ ''.'' @ t @ r"
    unfolding re_rests_email_iff by blast
  then have "email_format (l @ ''@'' @ d @ ''.'' @ t) \<and> s = (l @ ''@'' @ d @ ''.'' @ t) @ r"
    unfolding email_format_def by auto
  then show "\<exists>p r. email_format p \<and> s = p @ r" by blast
next
  assume "\<exists>p r. email_format p \<and> s = p @ r"
  then obtain p r where "email_format p" and s: "s = p @ r" by blast
  then obtain l d t where "l \<noteq> []" "CHR ''@'' \<notin> set l" "d \<noteq> []" "CHR ''@'' \<notin> set d"
    "t \<noteq> []" "CHR ''@'' \<notin> set t" "p = l @ ''@'' @ d @ ''.'' @ t"
    unfolding email_format_def by blast
  with s have "l \<noteq> [] \<and> CHR ''@'' \<notin> set l \<and> d \<noteq> [] \<and> CHR ''@'' \<notin> set d
        \<and> t \<noteq> [] \<and> CHR ''@'' \<notin> set t \<and> s = l @ ''@'' @ d @ ''.'' @ t @ r"
    by simp
  then have "r \<in> set (re_rests email_pattern s)"
    unfolding re_rests_email_iff by blast
  then show "re_match email_pattern s"
    unfolding re_match_def by auto
qed

text \<open>The format itself is the match of the pattern against the whole string.\<close>

lemma email_format_iff: "email_format s \<longleftrightarrow> [] \<in> set (re_rests email_pattern s)"
  unfolding email_format_def re_rests_email_iff by simp

lemma email_format_accepted: "email_format s \<Longrightarrow> re_match email_pattern s"
proof -
  assume "email_format s"
  then have "email_format s \<and> s = s @ []" by simp
  then show ?thesis unfolding re_match_email_iff by blast
qed

lemma email_pattern_examples:
  "re_match email_pattern ''a@b.com''"
  "\<not> re_match email_pattern ''bad-email''"
  "re_match email_pattern ''a@b.c@d''"
  "\<not> re_match email_pattern ''@@a.b''"
  by (simp_all add: re_match_def email_pattern_def)

lemma email_format_examples:
  "email_format ''a@b.com''"
  "\<not> email_format ''bad-email''"
  "\<not> email_format ''a@b.c@d''"
  "\<not> email_format ''@@a.b''"
  by (simp_all add: email_format_iff email_pattern_def)

subsection \<open>The requests each tool issues\<close>

lemma save_candidate_details_io:
  "snd (save_candidate_details repr env net email name) =
     [\<lparr>meth = POST, url = format_optional (env ''CRM_CANDIDATE_ENDPOINT''),
       headers = [(''Authorization'', ''Bearer '' @ format_optional (env ''API_TOKEN'')),
                  (''Content-Type'', ''application/json'')],
       json_body = Some (JObj [(''email'', JStr email), (''name'', JStr name),
                               (''tags'', JArr [JStr ''new_candidate''])]),
       timeout = None\<rparr>]"
  by (simp add: save_candidate_details_def requests_post_def send_def Let_def
      split: http_outcome.splits)

lemma schedule_interview_io:
  "snd (schedule_interview env net email slot) =
     [\<lparr>meth = POST, url = format_optional (env ''INTERVIEW_SLOTS_ENDPOINT''),
       headers = [(''Authorization'', ''Bearer '' @ format_optional (env ''API_TOKEN'')),
                  (''Content-Type'', ''application/json'')],
       json_body = Some (JObj [(''email'', JStr email), (''slot'', JStr slot)]),
       timeout = None\<rparr>]"
  by (simp add: schedule_interview_def requests_post_def send_def Let_def
      split: http_outcome.splits)

lemma book_appointment_io:
  "snd (book_appointment env net email name) =
     (if re_match email_pattern email
      then [\<lparr>meth = POST, url = format_optional (env ''WEBHOOK_URL''),
             headers = [(''Content-Type'', ''application/json'')],
             json_body = Some (JObj [(''email'', JStr email), (''name'', JStr name)]),
             timeout = None\<rparr>]
      else [])"
  by (simp add: book_appointment_def requests_post_def send_def Let_def
      split: http_outcome.splits)

lemma check_appointment_status_io:
  "snd (check_appointment_status env net email) =
     [\<lparr>meth = GET,
       url = format_optional (env ''CRM_CONTACT_LOOKUP_ENDPOINT'') @ ''?email='' @ email,
       headers = [(''Authorization'', ''Bearer '' @ format_optional (env ''API_TOKEN'')),
                  (''Content-Type'', ''application/json'')],
       json_body = None, timeout = None\<rparr>]"
  by (simp add: check_appointment_status_def requests_get_def send_def Let_def
      split: http_outcome.splits)

subsection \<open>Scenario A\<close>

text \<open>
  C8. When the request of the save-candidate tool is answered with a 2xx status and a
  body that holds an identifier under \<^verbatim>\<open>candidate\<close>, \<^verbatim>\<open>id\<close>, the tool returns the
  confirmation built around that identifier, whatever it is: the identifier in the
  message is the one read from the response. In Scenario A, the call with the email
  \<^verbatim>\<open>a@b.com\<close> and the name \<^verbatim>\<open>Jo\<close> answered with \<^verbatim>\<open>{"candidate":{"id":"42"}}\<close>, the
  message is the confirmation for \<^verbatim>\<open>42\<close>.
\<close>

theorem save_candidate_reports_parsed_id:
  assumes "r \<in> set (snd (save_candidate_details repr env net email name))"
    and "net r = Response s (Some (JObj body))"
    and "200 \<le> s" and "s < 300"
    and "map_of body ''candidate'' = Some (JObj candidate)"
    and "map_of candidate ''id'' = Some candidate_id"
  shows "fst (save_candidate_details repr env net email name)
           = Inr (''Candidate details saved with ID: '' @ py_format repr candidate_id @ ''.'')"
proof -
  from assms(1) have "r = \<lparr>meth = POST, url = format_optional (env ''CRM_CANDIDATE_ENDPOINT''),
       headers = [(''Authorization'', ''Bearer '' @ format_optional (env ''API_TOKEN'')),
                  (''Content-Type'', ''application/json'')],
       json_body = Some (JObj [(''email'', JStr email), (''name'', JStr name),
                               (''tags'', JArr [JStr ''new_candidate''])]),
       timeout = None\<rparr>"
    by (simp add: save_candidate_details_io)
  with assms(2-6) show ?thesis
    by (simp add: save_candidate_details_def requests_post_def send_def
        except_RequestException_def and_then_def raise_for_status_def response_json_def)
qed

theorem save_candidate_reports_parsed_id_witness:
  "save_candidate_details stub_repr stub_environ
      (stub_network (Response 201 (Some (JObj [(''candidate'', JObj [(''id'', JStr ''42'')])]))))
      ''a@b.com'' ''Jo''
     = (Inr ''Candidate details saved with ID: 42.'',
        [\<lparr>meth = POST, url = ''https://crm.test/candidates'',
          headers = [(''Authorization'', ''Bearer secret''),
                     (''Content-Type'', ''application/json'')],
          json_body = Some (JObj [(''email'', JStr ''a@b.com''), (''name'', JStr ''Jo''),
                                  (''tags'', JArr [JStr ''new_candidate''])]),
          timeout = None\<rparr>]) \<and>
   fst (save_candidate_details stub_repr stub_environ
         (stub_network (Response 200 (Some (JObj [(''candidate'', JObj [(''id'', JStr ''c-1207'')])]))))
         ''a@b.com'' ''Jo'')
     = Inr ''Candidate details saved with ID: c-1207.''"
proof -
  let ?net = "stub_network (Response 201 (Some (JObj [(''candidate'', JObj [(''id'', JStr ''42'')])])))"
  let ?net' = "stub_network (Response 200 (Some (JObj [(''candidate'', JObj [(''id'', JStr ''c-1207'')])])))"
  let ?r = "\<lparr>meth = POST, url = ''https://crm.test/candidates'',
          headers = [(''Authorization'', ''Bearer secret''),
                     (''Content-Type'', ''application/json'')],
          json_body = Some (JObj [(''email'', JStr ''a@b.com''), (''name'', JStr ''Jo''),
                                  (''tags'', JArr [JStr ''new_candidate''])]),
          timeout = None\<rparr>"
  have io: "\<And>net. snd (save_candidate_details stub_repr stub_environ net ''a@b.com'' ''Jo'') = [?r]"
    by (simp add: save_candidate_details_io stub_environ_def)
  then have a: "\<And>net. ?r \<in> set (snd (save_candidate_details stub_repr stub_environ net ''a@b.com'' ''Jo''))"
    by simp
  have b: "?net ?r = Response 201 (Some (JObj [(''candidate'', JObj [(''id'', JStr ''42'')])]))"
    by (simp add: stub_network_def)
  have b': "?net' ?r = Response 200 (Some (JObj [(''candidate'', JObj [(''id'', JStr ''c-1207'')])]))"
    by (simp add: stub_network_def)
  have 1: "fst (save_candidate_details stub_repr stub_environ ?net ''a@b.com'' ''Jo'')
          = Inr ''Candidate details saved with ID: 42.''"
    using save_candidate_reports_parsed_id [OF a [of ?net] b, of "[(''id'', JStr ''42'')]" "JStr ''42''"]
    by simp
  have 2: "fst (save_candidate_details stub_repr stub_environ ?net' ''a@b.com'' ''Jo'')
          = Inr ''Candidate details saved with ID: c-1207.''"
    using save_candidate_reports_parsed_id [OF a [of ?net'] b', of "[(''id'', JStr ''c-1207'')]" "JStr ''c-1207''"]
    by simp
  from 1 2 io [of ?net] show ?thesis by (simp add: prod_eq_iff)
qed

subsection \<open>The booking tool\<close>

lemma book_appointment_reject:
  "\<not> re_match email_pattern email \<Longrightarrow>
     book_appointment env net email name =
       (Inr ''The email address seems incorrect. Please provide a valid one.'', [])"
  by (simp add: book_appointment_def)

lemma book_appointment_accept:
  "re_match email_pattern email \<Longrightarrow>
     fst (book_appointment env net email name) =
       except_RequestException
          (and_then (fst (requests_post net (format_optional (env ''WEBHOOK_URL''))
                       (JObj [(''email'', JStr email), (''name'', JStr name)])
                       [(''Content-Type'', ''application/json'')] None)) (\<lambda>r.
           and_then (raise_for_status r) (\<lambda>_.
           Inr (''Appointment booking link sent to '' @ email @ ''. Please check your email.''))))
          ''There was an error booking your appointment. Please try again later.''"
  by (simp add: book_appointment_def requests_post_def send_def Let_def
      split: http_outcome.splits)

text \<open>
  A string that does not start with a string of the format is rejected before any HTTP
  request, as \<^verbatim>\<open>bad-email\<close> is in Scenario B; a string of the format is let through.
\<close>

lemma book_appointment_rejects_iff:
  "book_appointment env net email name =
     (Inr ''The email address seems incorrect. Please provide a valid one.'', [])
   \<longleftrightarrow> \<not> (\<exists>p r. email_format p \<and> email = p @ r)"
proof (cases "re_match email_pattern email")
  case True
  then have "snd (book_appointment env net email name) \<noteq> []"
    by (simp add: book_appointment_io)
  then have "book_appointment env net email name \<noteq>
     (Inr ''The email address seems incorrect. Please provide a valid one.'', [])"
    by auto
  with True show ?thesis unfolding re_match_email_iff by simp
next
  case False
  then show ?thesis
    using book_appointment_reject [OF False, of env net name]
    unfolding re_match_email_iff by simp
qed

lemma book_appointment_scenario_B:
  "book_appointment stub_environ (stub_network (Response 200 None)) ''bad-email'' ''Jo'' =
     (Inr ''The email address seems incorrect. Please provide a valid one.'', [])"
  by (simp add: book_appointment_reject email_pattern_examples)

text \<open>
  C2. Every string that is not of the format local part, at sign, domain, dot, top-level
  part should be rejected by the booking tool before any network call. The tool matches
  its pattern with \<^verbatim>\<open>re.match\<close>, which anchors at the start of the string only, so a
  well-formed start is enough: \<^verbatim>\<open>a@b.c@d\<close>, with its second at sign, is not of the
  format, and yet the tool posts it to the webhook and reports that the booking link
  was sent.
\<close>

theorem book_appointment_accepts_malformed_email:
  "\<not> email_format ''a@b.c@d'' \<and>
   book_appointment stub_environ (stub_network (Response 200 None)) ''a@b.c@d'' ''Jo'' =
     (Inr ''Appointment booking link sent to a@b.c@d. Please check your email.'',
      [\<lparr>meth = POST, url = ''https://hooks.test/book'',
        headers = [(''Content-Type'', ''application/json'')],
        json_body = Some (JObj [(''email'', JStr ''a@b.c@d''), (''name'', JStr ''Jo'')]),
        timeout = None\<rparr>])"
proof -
  have "\<not> email_format ''a@b.c@d''"
    by (simp add: email_format_examples)
  moreover have "re_match email_pattern ''a@b.c@d''"
    by (simp add: email_pattern_examples)
  then have "book_appointment stub_environ (stub_network (Response 200 None)) ''a@b.c@d'' ''Jo'' =
     (Inr ''Appointment booking link sent to a@b.c@d. Please check your email.'',
      [\<lparr>meth = POST, url = ''https://hooks.test/book'',
        headers = [(''Content-Type'', ''application/json'')],
        json_body = Some (JObj [(''email'', JStr ''a@b.c@d''), (''name'', JStr ''Jo'')]),
        timeout = None\<rparr>])"
    by (simp add: book_appointment_def requests_post_def send_def stub_network_def
        stub_environ_def except_RequestException_def and_then_def raise_for_status_def)
  ultimately show ?thesis by simp
qed

text \<open>
  C10. Whenever the webhook answers the booking tool's request with a 2xx status, the
  tool returns its success message, which contains the email exactly as the caller gave
  it. The body \<open>b\<close> of the response is arbitrary, also one that is not JSON: the tool
  never reads it.
\<close>

theorem book_appointment_2xx:
  assumes "r \<in> set (snd (book_appointment env net email name))"
    and "net r = Response s b" and "200 \<le> s" and "s < 300"
  shows "fst (book_appointment env net email name) =
           Inr (''Appointment booking link sent to '' @ email @ ''. Please check your email.'')"
proof (cases "re_match email_pattern email")
  case False
  with assms(1) show ?thesis by (simp add: book_appointment_io)
next
  case True
  with assms(1) have "r = \<lparr>meth = POST, url = format_optional (env ''WEBHOOK_URL''),
          headers = [(''Content-Type'', ''application/json'')],
          json_body = Some (JObj [(''email'', JStr email), (''name'', JStr name)]),
          timeout = None\<rparr>"
    by (simp add: book_appointment_io)
  with assms(2) have "fst (requests_post net (format_optional (env ''WEBHOOK_URL''))
                       (JObj [(''email'', JStr email), (''name'', JStr name)])
                       [(''Content-Type'', ''application/json'')] None) = Inr (s, b)"
    by (simp add: requests_post_def send_def)
  with assms(3,4) show ?thesis
    unfolding book_appointment_accept [OF True]
    by (simp add: and_then_def raise_for_status_def except_RequestException_def)
qed

theorem book_appointment_2xx_witness:
  "book_appointment stub_environ (stub_network (Response 204 None)) ''a@b.com'' ''Jo'' =
     (Inr ''Appointment booking link sent to a@b.com. Please check your email.'',
      [\<lparr>meth = POST, url = ''https://hooks.test/book'',
        headers = [(''Content-Type'', ''application/json'')],
        json_body = Some (JObj [(''email'', JStr ''a@b.com''), (''name'', JStr ''Jo'')]),
        timeout = None\<rparr>])"
proof -
  let ?net = "stub_network (Response 204 None)"
  let ?r = "\<lparr>meth = POST, url = ''https://hooks.test/book'',
        headers = [(''Content-Type'', ''application/json'')],
        json_body = Some (JObj [(''email'', JStr ''a@b.com''), (''name'', JStr ''Jo'')]),
        timeout = None\<rparr>"
  have io: "snd (book_appointment stub_environ ?net ''a@b.com'' ''Jo'') = [?r]"
    by (simp add: book_appointment_io email_pattern_examples stub_environ_def)
  then have a: "?r \<in> set (snd (book_appointment stub_environ ?net ''a@b.com'' ''Jo''))"
    by simp
  have b: "?net ?r = Response 204 None"
    by (simp add: stub_network_def)
  have "fst (book_appointment stub_environ ?net ''a@b.com'' ''Jo'') =
          Inr (''Appointment booking link sent to '' @ ''a@b.com'' @ ''. Please check your email.'')"
    using book_appointment_2xx [OF a b] by simp
  with io show ?thesis by (simp add: prod_eq_iff)
qed

subsection \<open>The status check\<close>

lemma contact_tags_dict_get:
  "contact_tags c = Some ts \<Longrightarrow> dict_get c ''tags'' (JArr []) = Inr (JArr ts)"
  by (cases c) (auto split: option.splits json.splits)

lemma scan_contacts_records:
  "\<forall>c\<in>set cs. contact_tags c \<noteq> None \<Longrightarrow>
     scan_contacts cs =
       Inr (if \<exists>c\<in>set cs. booked_contact c
            then ''The user has successfully booked the appointment.''
            else ''The user has not yet booked an appointment. Please offer him help'')"
proof (induction cs)
  case Nil
  then show ?case by simp
next
  case (Cons c cs)
  then obtain ts where ts: "contact_tags c = Some ts" by auto
  from Cons have IH: "scan_contacts cs =
       Inr (if \<exists>c\<in>set cs. booked_contact c
            then ''The user has successfully booked the appointment.''
            else ''The user has not yet booked an appointment. Please offer him help'')"
    by simp
  show ?case
    using ts IH by (simp add: contact_tags_dict_get booked_contact_def)
qed

lemma check_appointment_status_2xx_object:
  assumes "r \<in> set (snd (check_appointment_status env net email))"
    and "net r = Response s (Some (JObj body))"
    and "200 \<le> s" and "s < 300"
  shows "fst (check_appointment_status env net email) =
           except_RequestException
             (and_then (py_iter (case map_of body ''contacts'' of None \<Rightarrow> JArr [] | Some v \<Rightarrow> v))
                scan_contacts)
             ''Error checking the appointment status.''"
proof -
  from assms(1) have "r = \<lparr>meth = GET,
       url = format_optional (env ''CRM_CONTACT_LOOKUP_ENDPOINT'') @ ''?email='' @ email,
       headers = [(''Authorization'', ''Bearer '' @ format_optional (env ''API_TOKEN'')),
                  (''Content-Type'', ''application/json'')],
       json_body = None, timeout = None\<rparr>"
    by (simp add: check_appointment_status_io)
  with assms(2-4) show ?thesis
    by (simp add: check_appointment_status_def requests_get_def send_def and_then_def
        raise_for_status_def response_json_def split: option.splits)
qed

text \<open>
  C3. When the lookup is answered with a 2xx status and a body whose \<^verbatim>\<open>contacts\<close> are
  records with tag lists, the status check returns the "successfully booked" message if
  the marker tag \<^verbatim>\<open>livekit_appointment_booked\<close> is among the tags of a returned record,
  and the "not yet booked" message otherwise. All it does is one GET of the lookup
  endpoint, with the email as query parameter.
\<close>

theorem check_appointment_status_classifies:
  assumes "r \<in> set (snd (check_appointment_status env net email))"
    and "net r = Response s (Some (JObj body))"
    and "200 \<le> s" and "s < 300"
    and "map_of body ''contacts'' = Some (JArr contacts)"
    and "\<forall>c\<in>set contacts. contact_tags c \<noteq> None"
  shows "check_appointment_status env net email =
           (Inr (if \<exists>c\<in>set contacts. booked_contact c
                 then ''The user has successfully booked the appointment.''
                 else ''The user has not yet booked an appointment. Please offer him help''),
            [\<lparr>meth = GET,
              url = format_optional (env ''CRM_CONTACT_LOOKUP_ENDPOINT'') @ ''?email='' @ email,
              headers = [(''Authorization'', ''Bearer '' @ format_optional (env ''API_TOKEN'')),
                         (''Content-Type'', ''application/json'')],
              json_body = None, timeout = None\<rparr>])"
proof -
  have "fst (check_appointment_status env net email) =
          Inr (if \<exists>c\<in>set contacts. booked_contact c
               then ''The user has successfully booked the appointment.''
               else ''The user has not yet booked an appointment. Please offer him help'')"
    unfolding check_appointment_status_2xx_object [OF assms(1-4)]
    using assms(5) scan_contacts_records [OF assms(6)]
    by (simp add: and_then_def except_RequestException_def)
  then show ?thesis
    using check_appointment_status_io [of env net email] by (simp add: prod_eq_iff)
qed

theorem check_appointment_status_classifies_witness:
  "fst (check_appointment_status stub_environ
          (stub_network (Response 200 (Some (JObj [(''contacts'',
             JArr [JObj [(''id'', JInt 7), (''tags'', JArr [JStr ''vip''])],
                   JObj [(''tags'', JArr [JStr ''livekit_appointment_booked''])]])]))))
          ''a@b.com'')
     = Inr ''The user has successfully booked the appointment.'' \<and>
   fst (check_appointment_status stub_environ
          (stub_network (Response 200 (Some (JObj [(''contacts'',
             JArr [JObj [(''id'', JInt 7), (''tags'', JArr [JStr ''vip''])]])]))))
          ''a@b.com'')
     = Inr ''The user has not yet booked an appointment. Please offer him help''"
proof -
  let ?r = "\<lparr>meth = GET, url = ''https://crm.test/contacts?email=a@b.com'',
             headers = [(''Authorization'', ''Bearer secret''),
                        (''Content-Type'', ''application/json'')],
             json_body = None, timeout = None\<rparr>"
  let ?yes = "[JObj [(''id'', JInt 7), (''tags'', JArr [JStr ''vip''])],
               JObj [(''tags'', JArr [JStr ''livekit_appointment_booked''])]]"
  let ?no = "[JObj [(''id'', JInt 7), (''tags'', JArr [JStr ''vip''])]]"
  have io: "\<And>net. ?r \<in> set (snd (check_appointment_status stub_environ net ''a@b.com''))"
    by (simp add: check_appointment_status_io stub_environ_def)
  have 1: "fst (check_appointment_status stub_environ
                  (stub_network (Response 200 (Some (JObj [(''contacts'', JArr ?yes)])))) ''a@b.com'')
             = Inr ''The user has successfully booked the appointment.''"
    using check_appointment_status_classifies
      [OF io, of "stub_network (Response 200 (Some (JObj [(''contacts'', JArr ?yes)])))"
         200 "[(''contacts'', JArr ?yes)]" ?yes]
    by (simp add: stub_network_def booked_contact_def)
  have 2: "fst (check_appointment_status stub_environ
                  (stub_network (Response 200 (Some (JObj [(''contacts'', JArr ?no)])))) ''a@b.com'')
             = Inr ''The user has not yet booked an appointment. Please offer him help''"
    using check_appointment_status_classifies
      [OF io, of "stub_network (Response 200 (Some (JObj [(''contacts'', JArr ?no)])))"
         200 "[(''contacts'', JArr ?no)]" ?no]
    by (simp add: stub_network_def booked_contact_def)
  from 1 2 show ?thesis by simp
qed

text \<open>
  C9. When the lookup is answered with a 2xx status and a JSON object that has no
  \<^verbatim>\<open>contacts\<close> key, or whose contacts are records without a \<^verbatim>\<open>tags\<close> key, the status
  check does not raise: the missing field counts as an empty list and the answer is the
  "not yet booked" message.
\<close>

theorem check_appointment_status_missing_fields:
  assumes "r \<in> set (snd (check_appointment_status env net email))"
    and "net r = Response s (Some (JObj body))"
    and "200 \<le> s" and "s < 300"
    and "map_of body ''contacts'' = None \<or>
         (\<exists>cs. map_of body ''contacts'' = Some (JArr cs) \<and>
               (\<forall>c\<in>set cs. \<exists>kvs. c = JObj kvs \<and> map_of kvs ''tags'' = None))"
  shows "fst (check_appointment_status env net email) =
           Inr ''The user has not yet booked an appointment. Please offer him help''"
proof -
  from assms(5) show ?thesis
  proof
    assume "map_of body ''contacts'' = None"
    then show ?thesis
      unfolding check_appointment_status_2xx_object [OF assms(1-4)]
      by (simp add: and_then_def except_RequestException_def)
  next
    assume "\<exists>cs. map_of body ''contacts'' = Some (JArr cs) \<and>
               (\<forall>c\<in>set cs. \<exists>kvs. c = JObj kvs \<and> map_of kvs ''tags'' = None)"
    then obtain cs where cs: "map_of body ''contacts'' = Some (JArr cs)"
      and lack: "\<forall>c\<in>set cs. \<exists>kvs. c = JObj kvs \<and> map_of kvs ''tags'' = None"
      by blast
    from lack have tags: "\<forall>c\<in>set cs. contact_tags c = Some []" by auto
    then have "\<forall>c\<in>set cs. contact_tags c \<noteq> None" by simp
    from scan_contacts_records [OF this] tags
    have "scan_contacts cs =
            Inr ''The user has not yet booked an appointment. Please offer him help''"
      by (simp add: booked_contact_def)
    with cs show ?thesis
      unfolding check_appointment_status_2xx_object [OF assms(1-4)]
      by (simp add: and_then_def except_RequestException_def)
  qed
qed

theorem check_appointment_status_missing_fields_witness:
  "fst (check_appointment_status stub_environ
          (stub_network (Response 200 (Some (JObj [(''total'', JInt 0)])))) ''a@b.com'')
     = Inr ''The user has not yet booked an appointment. Please offer him help'' \<and>
   fst (check_appointment_status stub_environ
          (stub_network (Response 200 (Some (JObj [(''contacts'',
             JArr [JObj [(''id'', JInt 7)], JObj []])])))) ''a@b.com'')
     = Inr ''The user has not yet booked an appointment. Please offer him help''"
proof -
  let ?r = "\<lparr>meth = GET, url = ''https://crm.test/contacts?email=a@b.com'',
             headers = [(''Authorization'', ''Bearer secret''),
                        (''Content-Type'', ''application/json'')],
             json_body = None, timeout = None\<rparr>"
  have io: "\<And>net. ?r \<in> set (snd (check_appointment_status stub_environ net ''a@b.com''))"
    by (simp add: check_appointment_status_io stub_environ_def)
  have 1: "fst (check_appointment_status stub_environ
                  (stub_network (Response 200 (Some (JObj [(''total'', JInt 0)])))) ''a@b.com'')
             = Inr ''The user has not yet booked an appointment. Please offer him help''"
    using check_appointment_status_missing_fields
      [OF io, of "stub_network (Response 200 (Some (JObj [(''total'', JInt 0)])))"
         200 "[(''total'', JInt 0)]"]
    by (simp add: stub_network_def)
  have 2: "fst (check_appointment_status stub_environ
                  (stub_network (Response 200 (Some (JObj [(''contacts'',
                     JArr [JObj [(''id'', JInt 7)], JObj []])])))) ''a@b.com'')
             = Inr ''The user has not yet booked an appointment. Please offer him help''"
    using check_appointment_status_missing_fields
      [OF io, of "stub_network (Response 200 (Some (JObj [(''contacts'',
                     JArr [JObj [(''id'', JInt 7)], JObj []])])))"
         200 "[(''contacts'', JArr [JObj [(''id'', JInt 7)], JObj []])]"]
    by (simp add: stub_network_def)
  from 1 2 show ?thesis by simp
qed

subsection \<open>Exceptions that escape a tool\<close>

text \<open>
  Two of the tools read nothing but the status of the response: they return a message
  unless the library itself raises an exception that is no \<^verbatim>\<open>RequestException\<close>, which
  then leaves the tool like the \<^verbatim>\<open>KeyError\<close> below.
\<close>

lemma schedule_interview_returns:
  assumes "\<And>r e. net r = Raised e \<Longrightarrow> is_RequestException e"
  shows "\<exists>msg. fst (schedule_interview env net email slot) = Inr msg"
proof (cases "net \<lparr>meth = POST, url = format_optional (env ''INTERVIEW_SLOTS_ENDPOINT''),
       headers = [(''Authorization'', ''Bearer '' @ format_optional (env ''API_TOKEN'')),
                  (''Content-Type'', ''application/json'')],
       json_body = Some (JObj [(''email'', JStr email), (''slot'', JStr slot)]),
       timeout = None\<rparr>")
  case Failed
  then show ?thesis
    by (simp add: schedule_interview_def requests_post_def send_def Let_def
        except_RequestException_def and_then_def)
next
  case (Raised e)
  with assms have "is_RequestException e" by blast
  with Raised show ?thesis
    by (simp add: schedule_interview_def requests_post_def send_def Let_def
        except_RequestException_def and_then_def)
next
  case (Response s b)
  then show ?thesis
    by (simp add: schedule_interview_def requests_post_def send_def Let_def
        except_RequestException_def and_then_def raise_for_status_def)
qed

lemma book_appointment_returns:
  assumes "\<And>r e. net r = Raised e \<Longrightarrow> is_RequestException e"
  shows "\<exists>msg. fst (book_appointment env net email name) = Inr msg"
proof (cases "re_match email_pattern email")
  case False
  then show ?thesis by (simp add: book_appointment_reject)
next
  case True
  show ?thesis
  proof (cases "net \<lparr>meth = POST, url = format_optional (env ''WEBHOOK_URL''),
          headers = [(''Content-Type'', ''application/json'')],
          json_body = Some (JObj [(''email'', JStr email), (''name'', JStr name)]),
          timeout = None\<rparr>")
    case Failed
    then show ?thesis
      unfolding book_appointment_accept [OF True]
      by (simp add: requests_post_def send_def except_RequestException_def and_then_def)
  next
    case (Raised e)
    with assms have "is_RequestException e" by blast
    with Raised show ?thesis
      unfolding book_appointment_accept [OF True]
      by (simp add: requests_post_def send_def except_RequestException_def and_then_def)
  next
    case (Response s b)
    then show ?thesis
      unfolding book_appointment_accept [OF True]
      by (simp add: requests_post_def send_def except_RequestException_def and_then_def
          raise_for_status_def)
  qed
qed

lemma book_appointment_library_error_escapes:
  "fst (book_appointment stub_environ (stub_network (Raised UnicodeEncodeError))
          ''a@b.com'' ''Jo'') = Inl UnicodeEncodeError"
  by (simp add: book_appointment_accept email_pattern_examples requests_post_def send_def
      stub_network_def except_RequestException_def and_then_def)

text \<open>
  The save-candidate tool returns its failure message when the request gets no response,
  a 4xx or 5xx status, or a body that is not JSON.
\<close>

lemma save_candidate_details_failure:
  assumes "r \<in> set (snd (save_candidate_details repr env net email name))"
    and "net r = Failed \<or> (\<exists>s b. net r = Response s b \<and> 400 \<le> s \<and> s < 600)
           \<or> (\<exists>s. net r = Response s None)"
  shows "fst (save_candidate_details repr env net email name) =
           Inr ''Failed to save candidate details. Please try again.''"
proof -
  from assms(1) have "r = \<lparr>meth = POST, url = format_optional (env ''CRM_CANDIDATE_ENDPOINT''),
       headers = [(''Authorization'', ''Bearer '' @ format_optional (env ''API_TOKEN'')),
                  (''Content-Type'', ''application/json'')],
       json_body = Some (JObj [(''email'', JStr email), (''name'', JStr name),
                               (''tags'', JArr [JStr ''new_candidate''])]),
       timeout = None\<rparr>"
    by (simp add: save_candidate_details_io)
  with assms(2) show ?thesis
    by (auto simp add: save_candidate_details_def requests_post_def send_def Let_def
        except_RequestException_def and_then_def raise_for_status_def response_json_def)
qed

text \<open>
  C1. Every tool invocation should end in a result string, also when a 2xx response has a
  body of an unexpected shape. The save-candidate tool does not: when the body is the
  JSON object \<^verbatim>\<open>{}\<close>, the subscript \<^verbatim>\<open>['candidate']\<close> raises \<^verbatim>\<open>KeyError\<close>, which is
  no \<^verbatim>\<open>RequestException\<close>, so the handler does not catch it and the exception reaches
  the caller, after the POST has been made.
\<close>

theorem save_candidate_details_raises_KeyError:
  "save_candidate_details stub_repr stub_environ
      (stub_network (Response 200 (Some (JObj [])))) ''a@b.com'' ''Jo''
     = (Inl KeyError,
        [\<lparr>meth = POST, url = ''https://crm.test/candidates'',
          headers = [(''Authorization'', ''Bearer secret''),
                     (''Content-Type'', ''application/json'')],
          json_body = Some (JObj [(''email'', JStr ''a@b.com''), (''name'', JStr ''Jo''),
                                  (''tags'', JArr [JStr ''new_candidate''])]),
          timeout = None\<rparr>])"
  by (simp add: save_candidate_details_def requests_post_def send_def stub_network_def
      stub_environ_def except_RequestException_def and_then_def raise_for_status_def
      response_json_def)

text \<open>
  The same happens without the \<^verbatim>\<open>id\<close> field, and in the status check when the body is
  a JSON array, which has no method \<^verbatim>\<open>get\<close>.
\<close>

lemma save_candidate_details_missing_id:
  "fst (save_candidate_details stub_repr stub_environ
      (stub_network (Response 200 (Some (JObj [(''candidate'', JObj [])])))) ''a@b.com'' ''Jo'')
     = Inl KeyError"
  by (simp add: save_candidate_details_def requests_post_def send_def stub_network_def
      stub_environ_def except_RequestException_def and_then_def raise_for_status_def
      response_json_def)

lemma check_appointment_status_raises_AttributeError:
  "fst (check_appointment_status stub_environ
      (stub_network (Response 200 (Some (JArr [])))) ''a@b.com'')
     = Inl AttributeError"
  by (simp add: check_appointment_status_def requests_get_def send_def stub_network_def
      stub_environ_def except_RequestException_def and_then_def raise_for_status_def
      response_json_def)

subsection \<open>Timeouts\<close>

text \<open>
  C6, as stated: every HTTP call of a tool carries a bounded timeout. The call of the
  booking tool carries none.
\<close>

theorem book_appointment_timeout_counterexample:
  "map timeout (snd (book_appointment stub_environ (stub_network (Response 200 None))
                       ''a@b.com'' ''Jo'')) = [None]"
  by (simp add: book_appointment_io email_pattern_examples)

text \<open>
  C6, amended: no tool passes a timeout. Every HTTP request issued by
  \<^verbatim>\<open>save_candidate_details\<close>, \<^verbatim>\<open>schedule_interview\<close>, \<^verbatim>\<open>book_appointment\<close> and
  \<^verbatim>\<open>check_appointment_status\<close> goes out with the library's default, under which the call
  waits for the network as long as it takes.
\<close>

theorem tools_pass_no_timeout:
  "(\<forall>r\<in>set (snd (save_candidate_details repr env net email name)). timeout r = None) \<and>
   (\<forall>r\<in>set (snd (schedule_interview env net email slot)). timeout r = None) \<and>
   (\<forall>r\<in>set (snd (book_appointment env net email name)). timeout r = None) \<and>
   (\<forall>r\<in>set (snd (check_appointment_status env net email)). timeout r = None)"
  by (simp add: save_candidate_details_io schedule_interview_io book_appointment_io
      check_appointment_status_io)

theorem tools_pass_no_timeout_witness:
  "map timeout (snd (save_candidate_details stub_repr stub_environ (stub_network Failed)
                       ''a@b.com'' ''Jo'')) = [None] \<and>
   map timeout (snd (check_appointment_status stub_environ (stub_network Failed)
                       ''a@b.com'')) = [None]"
  using tools_pass_no_timeout
    [of stub_repr stub_environ "stub_network Failed" "''a@b.com''" "''Jo''" "''10:30''"]
  by (simp add: save_candidate_details_io check_appointment_status_io)

subsection \<open>Follow-ups\<close>

text \<open>
  C4, as stated: no follow-up is scheduled for a call whose result is a failure. The
  booking tool rejects the address \<^verbatim>\<open>bad-email\<close>, and the handler of the finished call
  creates the follow-up task for that address all the same.
\<close>

theorem follow_up_after_failure_counterexample:
  "fst (book_appointment stub_environ (stub_network Failed) ''bad-email'' ''Jo'') =
     Inr ''The email address seems incorrect. Please provide a valid one.'' \<and>
   on_function_calls_finished
     [\<lparr>call_info = \<lparr>function_info = BookAppointment,
                    arguments = [(''email'', ''bad-email''), (''name'', ''Jo'')]\<rparr>,
       result = fst (book_appointment stub_environ (stub_network Failed) ''bad-email'' ''Jo'')\<rparr>]
     = Inr [FollowUpAppointment ''bad-email'']"
  by (simp add: book_appointment_reject email_pattern_examples on_function_calls_finished_def)

text \<open>
  C4, amended: a follow-up status check is scheduled whenever the first finished call
  carries an \<^verbatim>\<open>email\<close> argument that is not empty (and no \<^verbatim>\<open>user_msg\<close>), whatever the
  result \<open>r\<close> of that call: the handler reads the arguments only.
\<close>

theorem follow_up_whatever_the_result:
  assumes "map_of (arguments (call_info cf)) ''email'' = Some e" and "e \<noteq> []"
    and "\<not> truthy (map_of (arguments (call_info cf)) ''user_msg'')"
  shows "on_function_calls_finished (cf\<lparr>result := r\<rparr> # rest) = Inr [FollowUpAppointment e]"
  using assms by (simp add: on_function_calls_finished_def)

theorem follow_up_whatever_the_result_witness:
  "on_function_calls_finished
     [\<lparr>call_info = \<lparr>function_info = BookAppointment,
                    arguments = [(''email'', ''a@b.com''), (''name'', ''Jo'')]\<rparr>,
       result = Inr ''There was an error booking your appointment. Please try again later.''\<rparr>]
     = Inr [FollowUpAppointment ''a@b.com'']"
  using follow_up_whatever_the_result
    [of "\<lparr>call_info = \<lparr>function_info = BookAppointment,
                      arguments = [(''email'', ''a@b.com''), (''name'', ''Jo'')]\<rparr>,
         result = Inr []\<rparr>" "''a@b.com''"
        "Inr ''There was an error booking your appointment. Please try again later.''" "[]"]
  by simp

subsection \<open>The end of a session\<close>

lemma wake_fields:
  "asleep (wake env net e s) = remove1 e (asleep s)"
  "sent (wake env net e s) = sent s @ snd (check_appointment_status env net e)"
  "connected (wake env net e s) = connected s"
  "polling (wake env net e s) = polling s"
  by (simp_all add: wake_def follow_up_appointment_def answer_def Let_def
      split: prod.splits sum.splits task.splits)

text \<open>
  C5, as stated: once the room is no longer connected, every pending follow-up is
  cancelled and none fires. In the run below a booking schedules a follow-up, the room
  disconnects, the follow-up is still pending, and it then wakes, before
  \<^verbatim>\<open>entrypoint\<close> has polled the connection again: it sends its lookup and answers with
  the status.
\<close>

theorem follow_up_fires_after_close_counterexample:
  "step stub_environ (stub_network (Response 200 (Some (JObj [(''contacts'', JArr [])]))))
     initial_session
     (initial_session\<lparr>asleep := [''a@b.com'']\<rparr>) \<and>
   step stub_environ (stub_network (Response 200 (Some (JObj [(''contacts'', JArr [])]))))
     (initial_session\<lparr>asleep := [''a@b.com'']\<rparr>)
     (initial_session\<lparr>asleep := [''a@b.com''], connected := False\<rparr>) \<and>
   step stub_environ (stub_network (Response 200 (Some (JObj [(''contacts'', JArr [])]))))
     (initial_session\<lparr>asleep := [''a@b.com''], connected := False\<rparr>)
     (initial_session\<lparr>asleep := [], connected := False,
        answered := [''The user has not yet booked an appointment. Please offer him help''],
        sent := [\<lparr>meth = GET, url = ''https://crm.test/contacts?email=a@b.com'',
                  headers = [(''Authorization'', ''Bearer secret''),
                             (''Content-Type'', ''application/json'')],
                  json_body = None, timeout = None\<rparr>]\<rparr>)"
proof -
  let ?net = "stub_network (Response 200 (Some (JObj [(''contacts'', JArr [])])))"
  let ?cfs = "[\<lparr>call_info = \<lparr>function_info = BookAppointment,
                  arguments = [(''email'', ''a@b.com''), (''name'', ''Jo'')]\<rparr>,
               result = Inr ''Appointment booking link sent to a@b.com. Please check your email.''\<rparr>]"
  have "on_function_calls_finished ?cfs = Inr [FollowUpAppointment ''a@b.com'']"
    by (simp add: on_function_calls_finished_def)
  from step.calls_finished [OF this, of stub_environ ?net initial_session]
  have 1: "step stub_environ ?net initial_session (initial_session\<lparr>asleep := [''a@b.com'']\<rparr>)"
    by (simp add: initial_session_def)
  have "connected (initial_session\<lparr>asleep := [''a@b.com'']\<rparr>)"
    by (simp add: initial_session_def)
  from step.disconnect [OF this, of stub_environ ?net]
  have 2: "step stub_environ ?net (initial_session\<lparr>asleep := [''a@b.com'']\<rparr>)
             (initial_session\<lparr>asleep := [''a@b.com''], connected := False\<rparr>)"
    by simp
  have "''a@b.com'' \<in> set (asleep (initial_session\<lparr>asleep := [''a@b.com''], connected := False\<rparr>))"
    by simp
  from step.follow_up_wakes [OF this, of stub_environ ?net]
  have 3: "step stub_environ ?net
             (initial_session\<lparr>asleep := [''a@b.com''], connected := False\<rparr>)
             (wake stub_environ ?net ''a@b.com''
                (initial_session\<lparr>asleep := [''a@b.com''], connected := False\<rparr>))" .
  have "wake stub_environ ?net ''a@b.com''
          (initial_session\<lparr>asleep := [''a@b.com''], connected := False\<rparr>) =
        initial_session\<lparr>asleep := [], connected := False,
          answered := [''The user has not yet booked an appointment. Please offer him help''],
          sent := [\<lparr>meth = GET, url = ''https://crm.test/contacts?email=a@b.com'',
                    headers = [(''Authorization'', ''Bearer secret''),
                               (''Content-Type'', ''application/json'')],
                    json_body = None, timeout = None\<rparr>]\<rparr>"
    by (simp add: wake_def follow_up_appointment_def check_appointment_status_def
        requests_get_def send_def stub_network_def stub_environ_def
        except_RequestException_def and_then_def raise_for_status_def response_json_def
        answer_def initial_session_def)
  with 3 have 4: "step stub_environ ?net
             (initial_session\<lparr>asleep := [''a@b.com''], connected := False\<rparr>)
             (initial_session\<lparr>asleep := [], connected := False,
                answered := [''The user has not yet booked an appointment. Please offer him help''],
                sent := [\<lparr>meth = GET, url = ''https://crm.test/contacts?email=a@b.com'',
                          headers = [(''Authorization'', ''Bearer secret''),
                                     (''Content-Type'', ''application/json'')],
                          json_body = None, timeout = None\<rparr>]\<rparr>)"
    by simp
  from 1 2 4 show ?thesis by blast
qed

text \<open>
  C5, amended: nothing in the session cancels a follow-up. A step of the session either
  keeps every sleeping follow-up in place and sends nothing (so do the loss of the
  connection and the poll at which \<^verbatim>\<open>entrypoint\<close> returns), or it is the wake-up of one
  of them, which sends its lookup whatever the connection state.
\<close>

theorem follow_up_never_cancelled:
  assumes "step env net s s'"
  shows "(take (length (asleep s)) (asleep s') = asleep s \<and> sent s' = sent s) \<or>
         (\<exists>e\<in>set (asleep s).
            asleep s' = remove1 e (asleep s) \<and>
            sent s' = sent s @ snd (check_appointment_status env net e))"
  using assms
proof cases
  case disconnect
  then show ?thesis by simp
next
  case poll
  then show ?thesis by simp
next
  case (calls_finished cfs ts)
  then show ?thesis by simp
next
  case (message_received msg)
  then show ?thesis by (simp add: answer_def)
next
  case (follow_up_wakes email)
  then show ?thesis by (auto simp add: wake_fields)
qed

theorem follow_up_never_cancelled_witness:
  "step stub_environ (stub_network Failed)
     (initial_session\<lparr>asleep := [''a@b.com'']\<rparr>)
     (initial_session\<lparr>asleep := [''a@b.com''], connected := False\<rparr>) \<and>
   asleep (initial_session\<lparr>asleep := [''a@b.com''], connected := False\<rparr>) = [''a@b.com'']"
proof -
  have "connected (initial_session\<lparr>asleep := [''a@b.com'']\<rparr>)"
    by (simp add: initial_session_def)
  from step.disconnect [OF this, of stub_environ "stub_network Failed"]
  have h: "step stub_environ (stub_network Failed)
             (initial_session\<lparr>asleep := [''a@b.com'']\<rparr>)
             (initial_session\<lparr>asleep := [''a@b.com''], connected := False\<rparr>)"
    by simp
  show ?thesis using h follow_up_never_cancelled [OF h] by simp
qed

end
